theory Spec2Isabelle
  imports Main
begin

section \<open>The tutoring relay of \<^verbatim>\<open>src/server/index.js\<close>\<close>

text \<open>
  The server registers four handlers on every socket: \<^verbatim>\<open>getUserData\<close>,
  \<^verbatim>\<open>startConversation\<close>, \<^verbatim>\<open>sendMessage\<close> and \<^verbatim>\<open>disconnect\<close>.
  Each handler is modelled as a function from the state it can touch to the list of
  effects it performs, in the order the source performs them, and the state it leaves.

  What lies outside the file is an input of the model:
  \<^item> the clock: what one \<^verbatim>\<open>new Date()\<close> reads is a parameter, the milliseconds since
    1970-01-01T00:00:00Z as an \<open>int\<close>; \<^verbatim>\<open>getUserData\<close> reads the clock twice and
    computes its two day strings from the readings. The time zone of the server process
    is a parameter too. In \<^verbatim>\<open>sendMessage\<close> the string returned by the one call of
    \<^verbatim>\<open>getToday()\<close> is the parameter \<open>today\<close>;
  \<^item> the profile store: a map from user id to row; whether one call to it succeeds is a
    boolean parameter of the handler. A call that fails changes nothing and returns no row;
  \<^item> the language-model provider: what it answers to one call is a parameter
    (\<open>start_outcome\<close>, \<open>upstream\<close>); the history it keeps inside the chat object is not
    modelled.
  One handler invocation runs from its first line to its last; other handlers running
  between its \<^verbatim>\<open>await\<close>s are not modelled. The integer columns of a row are \<open>int\<close>,
  the message counter of a session, which starts at 0 and only grows by 1, is \<open>nat\<close>.
\<close>

subsection \<open>Data\<close>

text \<open>A row of the table \<^verbatim>\<open>profiles\<close>. A date column may be null (\<open>None\<close>).\<close>

record profile =
  id_col :: string
  streak :: int
  last_login_date :: "string option"
  last_conversation_date :: "string option"
  daily_conversations :: int
  is_premium :: bool

text \<open>
  The object passed to \<^verbatim>\<open>.update(...)\<close>: each column is either set (\<open>Some\<close>) or
  not a key of the object (\<open>None\<close>).
\<close>

record updates =
  upd_streak :: "int option"
  upd_last_login_date :: "string option"
  upd_daily_conversations :: "int option"
  upd_last_conversation_date :: "string option"

text \<open>
  The chat object of the provider is opaque; it is identified here by the scenario its
  system prompt was built from.
\<close>

datatype chat = Chat string

text \<open>An entry of the map \<^verbatim>\<open>chatSessions\<close>.\<close>

record session =
  chat_of :: chat
  userMessageCount :: nat
  userId :: string

text \<open>The events the server emits on a socket.\<close>

datatype event =
    UserDataError string
  | UserData profile
  | Error string
  | LimitReached
  | AiMessage string
  | AiMessageChunk string
  | AiMessageEnd
  | ConversationCompleted int

text \<open>What a handler does to the outside, in order: it emits, or it writes to the store.\<close>

datatype effect =
    Emit event
  | Update string updates

type_synonym store = "string \<rightharpoonup> profile"

record server_state =
  chatSessions :: "string \<rightharpoonup> session"
  profiles :: store

text \<open>
  The answer of the provider to \<^verbatim>\<open>startConversation\<close>'s \<^verbatim>\<open>try\<close> block:
  \<open>SetupThrows\<close> is an exception of \<^verbatim>\<open>getGenerativeModel\<close> or \<^verbatim>\<open>startChat\<close>
  (before line 162), \<open>OpeningThrows\<close> one of \<^verbatim>\<open>chat.sendMessage\<close> or
  \<^verbatim>\<open>result.response.text()\<close> (lines 164-165), \<open>Opening t\<close> the text of the reply.
\<close>

datatype start_outcome = SetupThrows | OpeningThrows | Opening string

text \<open>
  The answer of the provider to \<^verbatim>\<open>chat.sendMessageStream\<close>, as the \<^verbatim>\<open>for await\<close>
  loop sees it: the stream ends (\<open>Done\<close>), yields the text of one more chunk, or
  throws. A call that is rejected before any chunk is \<open>Throw\<close>.
\<close>

datatype upstream = Done | Yield string upstream | Throw

subsection \<open>The profile store\<close>

text \<open>\<^verbatim>\<open>.select(...).eq('id', userId).single()\<close>; \<open>None\<close> is \<^verbatim>\<open>error || !user\<close>.\<close>

definition select_single :: "bool \<Rightarrow> store \<Rightarrow> string \<Rightarrow> profile option" where
  "select_single ok db uid = (if ok then db uid else None)"

definition apply_updates :: "updates \<Rightarrow> profile \<Rightarrow> profile" where
  "apply_updates u p =
     p\<lparr> streak := (case upd_streak u of None \<Rightarrow> streak p | Some v \<Rightarrow> v),
        last_login_date :=
          (case upd_last_login_date u of None \<Rightarrow> last_login_date p | Some d \<Rightarrow> Some d),
        daily_conversations :=
          (case upd_daily_conversations u of None \<Rightarrow> daily_conversations p | Some v \<Rightarrow> v),
        last_conversation_date :=
          (case upd_last_conversation_date u of
             None \<Rightarrow> last_conversation_date p | Some d \<Rightarrow> Some d) \<rparr>"

text \<open>\<^verbatim>\<open>.update(u).eq('id', userId)\<close>: the store after the call.\<close>

definition update_rows :: "bool \<Rightarrow> store \<Rightarrow> string \<Rightarrow> updates \<Rightarrow> store" where
  "update_rows ok db uid u =
     (if ok then (case db uid of None \<Rightarrow> db | Some p \<Rightarrow> db(uid \<mapsto> apply_updates u p))
      else db)"

text \<open>
  \<^verbatim>\<open>.update(u).eq('id', userId).select().single()\<close>: the row returned
  (\<open>None\<close> is \<^verbatim>\<open>updateError\<close>).
\<close>

definition update_single :: "bool \<Rightarrow> store \<Rightarrow> string \<Rightarrow> updates \<Rightarrow> profile option" where
  "update_single ok db uid u = select_single ok (update_rows ok db uid u) uid"

subsection \<open>The clock\<close>

text \<open>
  \<^verbatim>\<open>Date\<close> is the one of ECMAScript: a time value is a number of milliseconds since
  1970-01-01T00:00:00Z, a day has 86400000 of them, and the calendar is the proleptic
  Gregorian one. \<open>civil_from_days\<close> gives year, month and day of month of a day number
  (the specification's \<^verbatim>\<open>YearFromTime\<close>, \<^verbatim>\<open>MonthFromTime\<close> + 1 and
  \<^verbatim>\<open>DateFromTime\<close>).
\<close>

definition msPerDay :: int where
  "msPerDay = 86400000"

definition civil_from_days :: "int \<Rightarrow> int \<times> int \<times> int" where
  "civil_from_days days =
     (let z = days + 719468;
          era = z div 146097;
          doe = z mod 146097;
          yoe = (doe - doe div 1460 + doe div 36524 - doe div 146096) div 365;
          doy = doe - (365 * yoe + yoe div 4 - yoe div 100);
          mp = (5 * doy + 2) div 153;
          d = doy - (153 * mp + 2) div 5 + 1;
          m = (if mp < 10 then mp + 3 else mp - 9);
          y = yoe + era * 400 + (if m \<le> 2 then 1 else 0)
      in (y, m, d))"

text \<open>The last decimal digit of a number, as a character, and its last two digits.\<close>

definition digit :: "int \<Rightarrow> char" where
  "digit n = ''0123456789'' ! nat (n mod 10)"

definition two_digits :: "int \<Rightarrow> string" where
  "two_digits n = [digit (n div 10), digit n]"

definition four_digits :: "int \<Rightarrow> string" where
  "four_digits n = two_digits (n div 100) @ two_digits n"

definition six_digits :: "int \<Rightarrow> string" where
  "six_digits n = two_digits (n div 10000) @ four_digits n"

text \<open>
  The year of \<^verbatim>\<open>toISOString\<close>: four digits from 0 to 9999, a sign and six digits
  otherwise.
\<close>

definition year_string :: "int \<Rightarrow> string" where
  "year_string y =
     (if 0 \<le> y \<and> y \<le> 9999 then four_digits y
      else if y < 0 then CHR ''-'' # six_digits (- y)
      else CHR ''+'' # six_digits y)"

text \<open>
  \<^verbatim>\<open>d.toISOString().split('T')[0]\<close> for a date \<open>d\<close> of time value \<open>t\<close>: the UTC date,
  \<^verbatim>\<open>YYYY-MM-DD\<close>.
\<close>

definition iso_date :: "int \<Rightarrow> string" where
  "iso_date t =
     (case civil_from_days (t div msPerDay) of
        (y, m, d) \<Rightarrow> year_string y @ ''-'' @ two_digits m @ ''-'' @ two_digits d)"

text \<open>Line 32, \<open>now\<close> being what its \<^verbatim>\<open>new Date()\<close> reads.\<close>

definition getToday :: "int \<Rightarrow> string" where
  "getToday now = iso_date now"

text \<open>
  The time zone of the process, as ECMAScript uses it: the offset of local time from UTC
  at a UTC time value (\<^verbatim>\<open>LocalTZA(t, true)\<close>) and at a local time value
  (\<^verbatim>\<open>LocalTZA(t, false)\<close>), in milliseconds.
\<close>

record time_zone =
  utc_offset :: "int \<Rightarrow> int"
  local_offset :: "int \<Rightarrow> int"

text \<open>
  \<^verbatim>\<open>d.setDate(d.getDate() - 1)\<close> for a date of time value \<open>t\<close>: the day of the month
  is the local one, so the local time value goes back by one day, and the result is the
  UTC time value of that local time.
\<close>

definition setDate_previous :: "time_zone \<Rightarrow> int \<Rightarrow> int" where
  "setDate_previous tz t =
     (let local = t + utc_offset tz t;
          newDate = local - msPerDay
      in newDate - local_offset tz newDate)"

text \<open>Lines 46-48, \<open>now\<close> being what the \<^verbatim>\<open>new Date()\<close> of line 46 reads.\<close>

definition compute_yesterdayStr :: "time_zone \<Rightarrow> int \<Rightarrow> string" where
  "compute_yesterdayStr tz now = iso_date (setDate_previous tz now)"

subsection \<open>\<^verbatim>\<open>getUserData\<close>\<close>

text \<open>\<^verbatim>\<open>!userId\<close>: the id is missing or the empty string.\<close>

fun missing :: "string option \<Rightarrow> bool" where
  "missing None = True"
| "missing (Some u) = (u = [])"

definition no_updates :: updates where
  "no_updates = \<lparr> upd_streak = None, upd_last_login_date = None,
                  upd_daily_conversations = None, upd_last_conversation_date = None \<rparr>"

text \<open>
  Lines 63-86. Each step takes and returns the pair (\<^verbatim>\<open>updates\<close>, \<^verbatim>\<open>needsUpdate\<close>).
\<close>

definition streak_logic :: "string \<Rightarrow> string \<Rightarrow> profile \<Rightarrow> updates \<times> bool \<Rightarrow> updates \<times> bool" where
  "streak_logic today yesterdayStr user acc =
     (if last_login_date user = Some yesterdayStr
        then ((fst acc)\<lparr> upd_streak := Some (streak user + 1) \<rparr>, True)
      else if last_login_date user \<noteq> Some today
        then ((fst acc)\<lparr> upd_streak := Some 1 \<rparr>, True)
      else acc)"

definition login_date_logic :: "string \<Rightarrow> profile \<Rightarrow> updates \<times> bool \<Rightarrow> updates \<times> bool" where
  "login_date_logic today user acc =
     (if last_login_date user \<noteq> Some today
        then ((fst acc)\<lparr> upd_last_login_date := Some today \<rparr>, True)
      else acc)"

definition reset_logic :: "string \<Rightarrow> profile \<Rightarrow> updates \<times> bool \<Rightarrow> updates \<times> bool" where
  "reset_logic today user acc =
     (if last_conversation_date user \<noteq> Some today
        then ((fst acc)\<lparr> upd_daily_conversations := Some 0,
                         upd_last_conversation_date := Some today \<rparr>, True)
      else acc)"

definition compute_updates :: "string \<Rightarrow> string \<Rightarrow> profile \<Rightarrow> updates \<times> bool" where
  "compute_updates today yesterdayStr user =
     reset_logic today user
       (login_date_logic today user
          (streak_logic today yesterdayStr user (no_updates, False)))"

text \<open>
  Lines 50-108: the handler from the read of the profile on, for a user id that is
  present and the two day strings of lines 45-48. \<open>sel_ok\<close> and \<open>upd_ok\<close> say whether
  the read and the write succeed.
\<close>

definition getUserData_body ::
  "bool \<Rightarrow> bool \<Rightarrow> string \<Rightarrow> string \<Rightarrow> string \<Rightarrow> store \<Rightarrow> effect list \<times> store" where
  "getUserData_body sel_ok upd_ok today yesterdayStr uid db =
     (case select_single sel_ok db uid of
        None \<Rightarrow> ([Emit (UserDataError ''Could not find user profile.'')], db)
      | Some user \<Rightarrow>
          let (upds, needsUpdate) = compute_updates today yesterdayStr user in
          if needsUpdate then
            (case update_single upd_ok db uid upds of
               None \<Rightarrow> ([Update uid upds, Emit (UserData user)],
                         update_rows upd_ok db uid upds)
             | Some updatedUser \<Rightarrow> ([Update uid upds, Emit (UserData updatedUser)],
                         update_rows upd_ok db uid upds))
          else ([Emit (UserData user)], db))"

text \<open>
  The handler, lines 38-109. \<open>first_now\<close> is what the clock reads in \<^verbatim>\<open>getToday()\<close>
  (line 45), \<open>second_now\<close> what it reads at line 46, \<open>tz\<close> the time zone of the process.
  The handler does not touch \<^verbatim>\<open>chatSessions\<close>, so its state is the store alone.
\<close>

definition getUserData ::
  "bool \<Rightarrow> bool \<Rightarrow> time_zone \<Rightarrow> int \<Rightarrow> int \<Rightarrow> string option \<Rightarrow> store
     \<Rightarrow> effect list \<times> store" where
  "getUserData sel_ok upd_ok tz first_now second_now uid_opt db =
     (if missing uid_opt then ([Emit (UserDataError ''Missing userId'')], db)
      else
        let uid = the uid_opt;
            today = getToday first_now;
            yesterdayStr = compute_yesterdayStr tz second_now
        in getUserData_body sel_ok upd_ok today yesterdayStr uid db)"

subsection \<open>\<^verbatim>\<open>startConversation\<close>\<close>

text \<open>
  Lines 112-170. The read selects the columns \<^verbatim>\<open>daily_conversations\<close> and
  \<^verbatim>\<open>is_premium\<close> only; the model reads the row and uses these two columns only.
\<close>

definition startConversation ::
  "bool \<Rightarrow> start_outcome \<Rightarrow> string \<Rightarrow> string \<Rightarrow> string option \<Rightarrow> server_state
     \<Rightarrow> effect list \<times> server_state" where
  "startConversation sel_ok outcome sid scenario uid_opt st =
     (if missing uid_opt then ([Emit (Error ''Missing userId.'')], st)
      else
        let uid = the uid_opt in
        case select_single sel_ok (profiles st) uid of
          None \<Rightarrow> ([Emit (Error ''User not found.'')], st)
        | Some user \<Rightarrow>
            if daily_conversations user \<ge> 3 \<and> \<not> is_premium user
              then ([Emit LimitReached], st)
            else
              (case outcome of
                 SetupThrows \<Rightarrow> ([Emit (Error ''Failed to start conversation.'')], st)
               | OpeningThrows \<Rightarrow>
                   ([Emit (Error ''Failed to start conversation.'')],
                    st\<lparr> chatSessions := (chatSessions st)
                          (sid \<mapsto> \<lparr> chat_of = Chat scenario, userMessageCount = 0,
                                    userId = uid \<rparr>) \<rparr>)
               | Opening text \<Rightarrow>
                   ([Emit (AiMessage text)],
                    st\<lparr> chatSessions := (chatSessions st)
                          (sid \<mapsto> \<lparr> chat_of = Chat scenario, userMessageCount = 0,
                                    userId = uid \<rparr>) \<rparr>)))"

subsection \<open>\<^verbatim>\<open>sendMessage\<close>\<close>

text \<open>Lines 206-215: the \<^verbatim>\<open>try\<close> block that forwards the stream.\<close>

fun relay :: "upstream \<Rightarrow> event list" where
  "relay Done = [AiMessageEnd]"
| "relay (Yield text rest) = AiMessageChunk text # relay rest"
| "relay Throw = [Error ''Failed to get AI response.'']"

text \<open>
  Lines 185-203, entered when the counter is 5. The result of the write is not looked
  at: the event is emitted whether the write succeeded or not.
\<close>

definition completion :: "bool \<Rightarrow> bool \<Rightarrow> string \<Rightarrow> string \<Rightarrow> store \<Rightarrow> effect list \<times> store" where
  "completion sel_ok upd_ok today uid db =
     (case select_single sel_ok db uid of
        None \<Rightarrow> ([], db)
      | Some user \<Rightarrow>
          if \<not> is_premium user then
            let newCount = daily_conversations user + 1;
                upds = no_updates\<lparr> upd_daily_conversations := Some newCount,
                                   upd_last_conversation_date := Some today \<rparr>
            in ([Update uid upds, Emit (ConversationCompleted newCount)],
                update_rows upd_ok db uid upds)
          else ([], db))"

text \<open>
  The handler, lines 173-216. \<open>message\<close> is what the client sent; the provider's answer
  to it is the parameter \<open>reply\<close>.
\<close>

definition sendMessage ::
  "bool \<Rightarrow> bool \<Rightarrow> string \<Rightarrow> upstream \<Rightarrow> string \<Rightarrow> string \<Rightarrow> server_state
     \<Rightarrow> effect list \<times> server_state" where
  "sendMessage sel_ok upd_ok today reply sid message st =
     (case chatSessions st sid of
        None \<Rightarrow> ([Emit (Error ''Chat session not found.'')], st)
      | Some s \<Rightarrow>
          let s' = s\<lparr> userMessageCount := userMessageCount s + 1 \<rparr>;
              st' = st\<lparr> chatSessions := (chatSessions st)(sid \<mapsto> s') \<rparr>;
              (done, db') =
                (if userMessageCount s' = 5
                   then completion sel_ok upd_ok today (userId s') (profiles st')
                 else ([], profiles st'))
          in (done @ map Emit (relay reply), st'\<lparr> profiles := db' \<rparr>))"

text \<open>Lines 218-221.\<close>

definition disconnect :: "string \<Rightarrow> server_state \<Rightarrow> server_state" where
  "disconnect sid st = st\<lparr> chatSessions := (chatSessions st)(sid := None) \<rparr>"

subsection \<open>Observing a run\<close>

text \<open>The events of a trace, and the writes of a trace, each in order.\<close>

fun emits :: "effect list \<Rightarrow> event list" where
  "emits [] = []"
| "emits (Emit e # tr) = e # emits tr"
| "emits (Update uid u # tr) = emits tr"

fun writes :: "effect list \<Rightarrow> (string \<times> updates) list" where
  "writes [] = []"
| "writes (Emit e # tr) = writes tr"
| "writes (Update uid u # tr) = (uid, u) # writes tr"

text \<open>What the provider's stream holds: the texts of its chunks, and whether it ends without
  throwing.\<close>

fun chunks_of :: "upstream \<Rightarrow> string list" where
  "chunks_of Done = []"
| "chunks_of (Yield text rest) = text # chunks_of rest"
| "chunks_of Throw = []"

fun completes :: "upstream \<Rightarrow> bool" where
  "completes Done = True"
| "completes (Yield text rest) = completes rest"
| "completes Throw = False"

text \<open>The \<^verbatim>\<open>conversationCompleted\<close> events.\<close>

fun is_completion :: "event \<Rightarrow> bool" where
  "is_completion (ConversationCompleted n) = True"
| "is_completion e = False"

text \<open>The events emitted after the first \<^verbatim>\<open>aiMessageEnd\<close> of a list of events.\<close>

fun after_end :: "event list \<Rightarrow> event list" where
  "after_end [] = []"
| "after_end (e # es) = (if e = AiMessageEnd then es else after_end es)"

text \<open>
  The update object of lines 195-198: \<^verbatim>\<open>daily_conversations\<close> and
  \<^verbatim>\<open>last_conversation_date\<close>, no other key.
\<close>

definition completion_updates :: "int \<Rightarrow> string \<Rightarrow> updates" where
  "completion_updates n today =
     \<lparr> upd_streak = None, upd_last_login_date = None,
       upd_daily_conversations = Some n, upd_last_conversation_date = Some today \<rparr>"

subsection \<open>Several messages on one socket\<close>

text \<open>
  socket.io calls the handler once for each \<^verbatim>\<open>sendMessage\<close> event of the socket, in
  the order they arrive. A \<open>turn\<close> holds the message of one such event together with
  what the store, the clock and the provider answer during its handling;
  \<open>sendMessages\<close> handles a list of them one after the other.
\<close>

record turn =
  t_sel_ok :: bool
  t_upd_ok :: bool
  t_today :: string
  t_reply :: upstream
  t_message :: string

fun sendMessages :: "string \<Rightarrow> turn list \<Rightarrow> server_state \<Rightarrow> effect list \<times> server_state" where
  "sendMessages sid [] st = ([], st)"
| "sendMessages sid (t # ts) st =
     (let (tr, st') = sendMessage (t_sel_ok t) (t_upd_ok t) (t_today t) (t_reply t) sid
                        (t_message t) st;
          (tr', st'') = sendMessages sid ts st'
      in (tr @ tr', st''))"

text \<open>
  The effects of lines 185-203 for the turn of a list on which the counter of session
  \<open>s\<close> becomes 5, if the list has such a turn.
\<close>

definition fifth_completion :: "string \<Rightarrow> turn list \<Rightarrow> server_state \<Rightarrow> session \<Rightarrow> effect list" where
  "fifth_completion sid ts st s =
     (if userMessageCount s < 5 \<and> 5 \<le> userMessageCount s + length ts then
        fst (completion (t_sel_ok (ts ! (4 - userMessageCount s)))
                        (t_upd_ok (ts ! (4 - userMessageCount s)))
                        (t_today (ts ! (4 - userMessageCount s))) (userId s) (profiles st))
      else [])"

subsection \<open>Concrete inputs\<close>

text \<open>
  The profile of the specification's first scenario, with \<^verbatim>\<open>2024-05-02\<close> as today:
  it logged in yesterday and its conversation counter is of today.
\<close>

definition returning_profile :: profile where
  "returning_profile =
     \<lparr> id_col = ''u1'', streak = 2, last_login_date = Some ''2024-05-01'',
       last_conversation_date = Some ''2024-05-02'', daily_conversations = 1,
       is_premium = False \<rparr>"

text \<open>
  A server whose local time is UTC, and one in the zone Europe/London during 2024:
  summer time, one hour ahead of UTC, from 2024-03-31T01:00Z to 2024-10-27T01:00Z. A
  local time that occurs twice or not at all has the offset that was in force before
  the change, as ECMAScript prescribes.
\<close>

definition utc_zone :: time_zone where
  "utc_zone = \<lparr> utc_offset = (\<lambda>t. 0), local_offset = (\<lambda>t. 0) \<rparr>"

definition london_2024 :: time_zone where
  "london_2024 =
     \<lparr> utc_offset = (\<lambda>t. if 1711846800000 \<le> t \<and> t < 1729990800000 then 3600000 else 0),
       local_offset = (\<lambda>t. if 1711850400000 \<le> t \<and> t < 1729994400000 then 3600000 else 0) \<rparr>"

text \<open>
  Three clock readings: 2024-05-02T12:00:00Z; 2024-03-31T23:15:00Z, the evening of the
  day summer time began; 2024-10-28T00:30:00Z, the night after the day it ended.
\<close>

definition noon_may_2 :: int where
  "noon_may_2 = 1714651200000"

definition evening_mar_31 :: int where
  "evening_mar_31 = 1711926900000"

definition night_oct_28 :: int where
  "night_oct_28 = 1730075400000"

text \<open>A profile that is current for \<^verbatim>\<open>2024-03-31\<close>.\<close>

definition current_profile :: profile where
  "current_profile =
     \<lparr> id_col = ''u3'', streak = 3, last_login_date = Some ''2024-03-31'',
       last_conversation_date = Some ''2024-03-31'', daily_conversations = 1,
       is_premium = False \<rparr>"

text \<open>
  A profile whose last login was on \<^verbatim>\<open>2024-10-27\<close>, and one whose last login was on
  \<^verbatim>\<open>2024-10-26\<close>.
\<close>

definition seen_oct_27 :: profile where
  "seen_oct_27 =
     \<lparr> id_col = ''u6'', streak = 2, last_login_date = Some ''2024-10-27'',
       last_conversation_date = Some ''2024-10-27'', daily_conversations = 1,
       is_premium = False \<rparr>"

definition seen_oct_26 :: profile where
  "seen_oct_26 =
     \<lparr> id_col = ''u7'', streak = 2, last_login_date = Some ''2024-10-26'',
       last_conversation_date = Some ''2024-10-26'', daily_conversations = 1,
       is_premium = False \<rparr>"

text \<open>
  A profile that used up its quota on \<^verbatim>\<open>2024-05-01\<close> and has not been reconciled
  since.
\<close>

definition exhausted_profile :: profile where
  "exhausted_profile =
     \<lparr> id_col = ''u4'', streak = 1, last_login_date = Some ''2024-05-01'',
       last_conversation_date = Some ''2024-05-01'', daily_conversations = 3,
       is_premium = False \<rparr>"

definition premium_profile :: profile where
  "premium_profile =
     \<lparr> id_col = ''u5'', streak = 1, last_login_date = Some ''2024-05-02'',
       last_conversation_date = Some ''2024-05-02'', daily_conversations = 7,
       is_premium = True \<rparr>"

text \<open>
  Sessions and states of one socket \<^verbatim>\<open>s1\<close>: no session; a session that has just been
  started; a session that has received four messages; the same for a premium user; and
  the store holding the profile whose quota is used up.
\<close>

definition cafe_session :: "nat \<Rightarrow> session" where
  "cafe_session n = \<lparr> chat_of = Chat ''cafe'', userMessageCount = n, userId = ''u1'' \<rparr>"

definition idle_state :: server_state where
  "idle_state = \<lparr> chatSessions = Map.empty, profiles = [''u1'' \<mapsto> returning_profile] \<rparr>"

definition started_state :: server_state where
  "started_state =
     \<lparr> chatSessions = [''s1'' \<mapsto> cafe_session 0], profiles = [''u1'' \<mapsto> returning_profile] \<rparr>"

definition fifth_turn_state :: server_state where
  "fifth_turn_state =
     \<lparr> chatSessions = [''s1'' \<mapsto> cafe_session 4], profiles = [''u1'' \<mapsto> returning_profile] \<rparr>"

definition premium_fifth_turn_state :: server_state where
  "premium_fifth_turn_state =
     \<lparr> chatSessions = [''s1'' \<mapsto> (cafe_session 4)\<lparr> userId := ''u5'' \<rparr>],
       profiles = [''u5'' \<mapsto> premium_profile] \<rparr>"

definition exhausted_state :: server_state where
  "exhausted_state = \<lparr> chatSessions = Map.empty, profiles = [''u4'' \<mapsto> exhausted_profile] \<rparr>"

text \<open>A turn whose calls all succeed, and six of them.\<close>

definition a_turn :: turn where
  "a_turn = \<lparr> t_sel_ok = True, t_upd_ok = True, t_today = ''2024-05-02'',
              t_reply = Yield ''Hi'' Done, t_message = ''hello'' \<rparr>"

definition six_turns :: "turn list" where
  "six_turns = [a_turn, a_turn, a_turn, a_turn, a_turn, a_turn]"

section \<open>Properties\<close>

subsection \<open>Traces\<close>

lemma emits_append: "emits (xs @ ys) = emits xs @ emits ys"
  by (induction xs rule: emits.induct) simp_all

lemma emits_map_Emit: "emits (map Emit es) = es"
  by (induction es) simp_all

lemma writes_append: "writes (xs @ ys) = writes xs @ writes ys"
  by (induction xs rule: writes.induct) simp_all

lemma writes_map_Emit: "writes (map Emit es) = []"
  by (induction es) simp_all

subsection \<open>Login reconciliation\<close>

lemma compute_updates_current:
  assumes "last_login_date user = Some today" "last_conversation_date user = Some today"
    "yesterdayStr \<noteq> today"
  shows "compute_updates today yesterdayStr user = (no_updates, False)"
  using assms
  by (simp add: compute_updates_def streak_logic_def login_date_logic_def reset_logic_def)

lemma streak_yesterday:
  assumes "last_login_date user = Some yesterdayStr"
  shows "\<exists>u. compute_updates today yesterdayStr user = (u, True) \<and>
             upd_streak u = Some (streak user + 1)"
  using assms
  by (simp add: compute_updates_def streak_logic_def login_date_logic_def reset_logic_def)

lemma streak_gap:
  assumes "last_login_date user \<noteq> Some yesterdayStr" "last_login_date user \<noteq> Some today"
  shows "\<exists>u. compute_updates today yesterdayStr user = (u, True) \<and> upd_streak u = Some 1"
  using assms
  by (simp add: compute_updates_def streak_logic_def login_date_logic_def reset_logic_def)

lemma getUserData_present:
  assumes "uid \<noteq> []"
  shows "getUserData sel_ok upd_ok tz first_now second_now (Some uid) db =
           getUserData_body sel_ok upd_ok (getToday first_now) (compute_yesterdayStr tz second_now) uid db"
  using assms by (simp add: getUserData_def Let_def)

lemma getUserData_body_written:
  assumes "db uid = Some user" "compute_updates today yesterdayStr user = (u, True)"
  shows "getUserData_body True True today yesterdayStr uid db =
           ([Update uid u, Emit (UserData (apply_updates u user))],
            db(uid \<mapsto> apply_updates u user))"
  using assms
  by (simp add: getUserData_body_def select_single_def update_single_def update_rows_def)

lemma getUserData_body_no_update:
  assumes "db uid = Some user" "compute_updates today yesterdayStr user = (u, False)"
  shows "getUserData_body True upd_ok today yesterdayStr uid db = ([Emit (UserData user)], db)"
  using assms
  by (simp add: getUserData_body_def select_single_def)

lemma getUserData_body_write_failure:
  assumes "db uid = Some user" "snd (compute_updates today yesterdayStr user)"
  shows "getUserData_body True False today yesterdayStr uid db =
           ([Update uid (fst (compute_updates today yesterdayStr user)), Emit (UserData user)], db)"
proof (cases "compute_updates today yesterdayStr user")
  case (Pair u b)
  with assms show ?thesis
    by (simp add: getUserData_body_def select_single_def update_single_def update_rows_def)
qed

text \<open>
  What the handler does in terms of the two strings it computed: the streak becomes the
  old streak plus 1 when \<^verbatim>\<open>last_login_date\<close> is \<^verbatim>\<open>yesterdayStr\<close>, and 1 when it is
  neither \<^verbatim>\<open>today\<close> nor \<^verbatim>\<open>yesterdayStr\<close>; a profile whose two dates are \<^verbatim>\<open>today\<close>
  is left alone when \<^verbatim>\<open>yesterdayStr\<close> differs from \<^verbatim>\<open>today\<close>.
\<close>

lemma getUserData_streak_of_computed_days:
  assumes "uid \<noteq> []" "db uid = Some user"
  shows "(last_login_date user = Some (compute_yesterdayStr tz second_now) \<longrightarrow>
            (\<exists>u. getUserData True True tz first_now second_now (Some uid) db =
                   ([Update uid u, Emit (UserData (apply_updates u user))],
                    db(uid \<mapsto> apply_updates u user)) \<and>
                 streak (apply_updates u user) = streak user + 1)) \<and>
         (last_login_date user \<noteq> Some (getToday first_now) \<and>
          last_login_date user \<noteq> Some (compute_yesterdayStr tz second_now) \<longrightarrow>
            (\<exists>u. getUserData True True tz first_now second_now (Some uid) db =
                   ([Update uid u, Emit (UserData (apply_updates u user))],
                    db(uid \<mapsto> apply_updates u user)) \<and>
                 streak (apply_updates u user) = 1))"
proof (intro conjI impI)
  assume y: "last_login_date user = Some (compute_yesterdayStr tz second_now)"
  from streak_yesterday[OF y, of "getToday first_now"] obtain u where
    u: "compute_updates (getToday first_now) (compute_yesterdayStr tz second_now) user = (u, True)"
       "upd_streak u = Some (streak user + 1)"
    by blast
  have "streak (apply_updates u user) = streak user + 1"
    using u(2) by (simp add: apply_updates_def)
  then show "\<exists>u. getUserData True True tz first_now second_now (Some uid) db =
                   ([Update uid u, Emit (UserData (apply_updates u user))],
                    db(uid \<mapsto> apply_updates u user)) \<and>
                 streak (apply_updates u user) = streak user + 1"
    using getUserData_body_written[where uid = uid and db = db and user = user and u = u
        and today = "getToday first_now" and yesterdayStr = "compute_yesterdayStr tz second_now"]
      assms u(1)
    by (auto simp add: getUserData_present)
next
  assume g: "last_login_date user \<noteq> Some (getToday first_now) \<and>
             last_login_date user \<noteq> Some (compute_yesterdayStr tz second_now)"
  from streak_gap[of user "compute_yesterdayStr tz second_now" "getToday first_now"] g obtain u where
    u: "compute_updates (getToday first_now) (compute_yesterdayStr tz second_now) user = (u, True)"
       "upd_streak u = Some 1"
    by blast
  have "streak (apply_updates u user) = 1"
    using u(2) by (simp add: apply_updates_def)
  then show "\<exists>u. getUserData True True tz first_now second_now (Some uid) db =
                   ([Update uid u, Emit (UserData (apply_updates u user))],
                    db(uid \<mapsto> apply_updates u user)) \<and>
                 streak (apply_updates u user) = 1"
    using getUserData_body_written[where uid = uid and db = db and user = user and u = u
        and today = "getToday first_now" and yesterdayStr = "compute_yesterdayStr tz second_now"]
      assms u(1)
    by (auto simp add: getUserData_present)
qed

lemma getUserData_current_when_days_differ:
  assumes "uid \<noteq> []" "db uid = Some user"
    "compute_yesterdayStr tz second_now \<noteq> getToday first_now"
    "last_login_date user = Some (getToday first_now)"
    "last_conversation_date user = Some (getToday first_now)"
  shows "getUserData True upd_ok tz first_now second_now (Some uid) db = ([Emit (UserData user)], db)"
  using getUserData_body_no_update[where uid = uid and db = db and user = user
      and today = "getToday first_now" and yesterdayStr = "compute_yesterdayStr tz second_now"
      and u = no_updates and upd_ok = upd_ok]
    compute_updates_current[OF assms(4,5,3)] assms(1,2)
  by (simp add: getUserData_present)

text \<open>The day strings of the three clock readings.\<close>

lemma days_noon_may_2:
  "getToday noon_may_2 = ''2024-05-02''"
  "compute_yesterdayStr utc_zone noon_may_2 = ''2024-05-01''"
  by code_simp+

lemma days_evening_mar_31:
  "getToday evening_mar_31 = ''2024-03-31''"
  "compute_yesterdayStr london_2024 evening_mar_31 = ''2024-03-31''"
  by code_simp+

lemma days_night_oct_28:
  "getToday night_oct_28 = ''2024-10-28''"
  "getToday (night_oct_28 - msPerDay) = ''2024-10-27''"
  "compute_yesterdayStr london_2024 night_oct_28 = ''2024-10-26''"
  by code_simp+

text \<open>
  Claim C4. The claim is that a profile whose last login was yesterday gets the old
  streak plus 1, and one whose last login is older gets 1. The handler compares with
  \<^verbatim>\<open>yesterdayStr\<close>, which it computes by going back one day in local time and writing
  the result in UTC (lines 46-48). On a server in the zone Europe/London, at
  2024-10-28T00:30Z, today is \<^verbatim>\<open>2024-10-28\<close>, the day before is \<^verbatim>\<open>2024-10-27\<close>, and
  \<^verbatim>\<open>yesterdayStr\<close> is \<^verbatim>\<open>2024-10-26\<close>: the profile last seen on \<^verbatim>\<open>2024-10-27\<close> with
  streak 2 is given streak 1, and the profile last seen on \<^verbatim>\<open>2024-10-26\<close> with streak 2
  is given streak 3.
\<close>

theorem getUserData_streak_night_after_dst_end:
  "getToday night_oct_28 = ''2024-10-28'' \<and>
   getToday (night_oct_28 - msPerDay) = ''2024-10-27'' \<and>
   compute_yesterdayStr london_2024 night_oct_28 = ''2024-10-26'' \<and>
   last_login_date seen_oct_27 = Some ''2024-10-27'' \<and> streak seen_oct_27 = 2 \<and>
   emits (fst (getUserData True True london_2024 night_oct_28 night_oct_28 (Some ''u6'')
                 [''u6'' \<mapsto> seen_oct_27])) =
     [UserData (seen_oct_27\<lparr> streak := 1, last_login_date := Some ''2024-10-28'',
                             last_conversation_date := Some ''2024-10-28'',
                             daily_conversations := 0 \<rparr>)] \<and>
   last_login_date seen_oct_26 = Some ''2024-10-26'' \<and> streak seen_oct_26 = 2 \<and>
   emits (fst (getUserData True True london_2024 night_oct_28 night_oct_28 (Some ''u7'')
                 [''u7'' \<mapsto> seen_oct_26])) =
     [UserData (seen_oct_26\<lparr> streak := 3, last_login_date := Some ''2024-10-28'',
                             last_conversation_date := Some ''2024-10-28'',
                             daily_conversations := 0 \<rparr>)]"
  by (simp add: days_night_oct_28 getUserData_def getUserData_body_def Let_def
      select_single_def update_single_def update_rows_def apply_updates_def
      compute_updates_def streak_logic_def login_date_logic_def reset_logic_def
      no_updates_def seen_oct_27_def seen_oct_26_def)

text \<open>
  Claim C8. The claim is that a profile whose \<^verbatim>\<open>last_login_date\<close> and
  \<^verbatim>\<open>last_conversation_date\<close> are both today is returned as it is, with no write, so
  that a repeated call on the same day changes nothing. On a server in the zone
  Europe/London, at 2024-03-31T23:15Z, \<^verbatim>\<open>yesterdayStr\<close> is \<^verbatim>\<open>2024-03-31\<close>, which is
  today: the first branch of the streak logic (line 67) fires for the profile that is
  current for today, the handler writes streak 4 in place of 3, and a second call at
  the same time writes streak 5.
\<close>

theorem getUserData_current_profile_evening_of_dst_start:
  "getToday evening_mar_31 = ''2024-03-31'' \<and>
   compute_yesterdayStr london_2024 evening_mar_31 = ''2024-03-31'' \<and>
   last_login_date current_profile = Some ''2024-03-31'' \<and>
   last_conversation_date current_profile = Some ''2024-03-31'' \<and>
   getUserData True True london_2024 evening_mar_31 evening_mar_31 (Some ''u3'')
       [''u3'' \<mapsto> current_profile] =
     ([Update ''u3'' (no_updates\<lparr> upd_streak := Some 4 \<rparr>),
       Emit (UserData (current_profile\<lparr> streak := 4 \<rparr>))],
      [''u3'' \<mapsto> current_profile\<lparr> streak := 4 \<rparr>]) \<and>
   getUserData True True london_2024 evening_mar_31 evening_mar_31 (Some ''u3'')
       [''u3'' \<mapsto> current_profile\<lparr> streak := 4 \<rparr>] =
     ([Update ''u3'' (no_updates\<lparr> upd_streak := Some 5 \<rparr>),
       Emit (UserData (current_profile\<lparr> streak := 5 \<rparr>))],
      [''u3'' \<mapsto> current_profile\<lparr> streak := 5 \<rparr>])"
  by (simp add: days_evening_mar_31 getUserData_def getUserData_body_def Let_def
      select_single_def update_single_def update_rows_def apply_updates_def
      compute_updates_def streak_logic_def login_date_logic_def reset_logic_def
      no_updates_def current_profile_def)

text \<open>
  Claim C9. When the write of \<^verbatim>\<open>getUserData\<close> fails, the handler emits
  \<^verbatim>\<open>userData\<close> with the row as it was read, and nothing else; the store is as it was.
\<close>

theorem getUserData_write_failure:
  assumes "uid \<noteq> []" "db uid = Some user"
    "snd (compute_updates (getToday first_now) (compute_yesterdayStr tz second_now) user)"
  shows "getUserData True False tz first_now second_now (Some uid) db =
           ([Update uid (fst (compute_updates (getToday first_now) (compute_yesterdayStr tz second_now) user)),
             Emit (UserData user)], db)"
  using getUserData_body_write_failure[where uid = uid and db = db and user = user
      and today = "getToday first_now" and yesterdayStr = "compute_yesterdayStr tz second_now"] assms
  by (simp add: getUserData_present)

theorem getUserData_write_failure_witness:
  "snd (compute_updates (getToday noon_may_2) (compute_yesterdayStr utc_zone noon_may_2)
          returning_profile) \<and>
   emits (fst (getUserData True False utc_zone noon_may_2 noon_may_2 (Some ''u1'')
                 [''u1'' \<mapsto> returning_profile])) = [UserData returning_profile] \<and>
   snd (getUserData True False utc_zone noon_may_2 noon_may_2 (Some ''u1'')
          [''u1'' \<mapsto> returning_profile]) = [''u1'' \<mapsto> returning_profile]"
proof -
  have a: "''u1'' \<noteq> []" "[''u1'' \<mapsto> returning_profile] ''u1'' = Some returning_profile"
    by simp_all
  have n: "snd (compute_updates (getToday noon_may_2) (compute_yesterdayStr utc_zone noon_may_2)
                  returning_profile)"
    by (simp add: days_noon_may_2 compute_updates_def streak_logic_def login_date_logic_def
        reset_logic_def returning_profile_def)
  show ?thesis
    using getUserData_write_failure[where uid = "''u1''" and db = "[''u1'' \<mapsto> returning_profile]"
        and user = returning_profile and first_now = noon_may_2 and second_now = noon_may_2
        and tz = utc_zone] a n
    by simp
qed

subsection \<open>The quota gate\<close>

text \<open>
  Claim C5. For a profile that was read, \<^verbatim>\<open>startConversation\<close> emits
  \<^verbatim>\<open>limitReached\<close> exactly when the profile is not premium and its
  \<^verbatim>\<open>daily_conversations\<close> is at least 3, that is, it lets the start through exactly
  when the profile is premium or the counter is below 3. A premium profile is never
  refused, whatever its counter. When the start is refused, \<^verbatim>\<open>limitReached\<close> is the
  only effect and no session is registered.
\<close>

theorem startConversation_quota:
  assumes "uid \<noteq> []" "profiles st uid = Some user"
  shows "(Emit LimitReached \<in> set (fst (startConversation True outcome sid scenario (Some uid) st)))
           = (\<not> (is_premium user \<or> daily_conversations user < 3)) \<and>
         (is_premium user \<longrightarrow>
            Emit LimitReached \<notin> set (fst (startConversation True outcome sid scenario (Some uid) st))) \<and>
         (\<not> is_premium user \<and> daily_conversations user \<ge> 3 \<longrightarrow>
            startConversation True outcome sid scenario (Some uid) st = ([Emit LimitReached], st))"
  using assms
  by (cases outcome) (auto simp add: startConversation_def select_single_def)

theorem startConversation_quota_witness:
  "Emit LimitReached \<notin> set (fst (startConversation True (Opening ''Hello!'') ''s1'' ''cafe''
      (Some ''u5'') \<lparr> chatSessions = Map.empty, profiles = [''u5'' \<mapsto> premium_profile] \<rparr>)) \<and>
   startConversation True (Opening ''Hello!'') ''s1'' ''cafe'' (Some ''u4'')
      \<lparr> chatSessions = Map.empty, profiles = [''u4'' \<mapsto> exhausted_profile] \<rparr> =
     ([Emit LimitReached], \<lparr> chatSessions = Map.empty, profiles = [''u4'' \<mapsto> exhausted_profile] \<rparr>)"
proof -
  have a: "''u5'' \<noteq> []"
    "profiles \<lparr> chatSessions = Map.empty, profiles = [''u5'' \<mapsto> premium_profile] \<rparr> ''u5''
       = Some premium_profile"
    "is_premium premium_profile"
    by (simp_all add: premium_profile_def)
  have b: "''u4'' \<noteq> []"
    "profiles \<lparr> chatSessions = Map.empty, profiles = [''u4'' \<mapsto> exhausted_profile] \<rparr> ''u4''
       = Some exhausted_profile"
    "\<not> is_premium exhausted_profile \<and> daily_conversations exhausted_profile \<ge> 3"
    by (simp_all add: exhausted_profile_def)
  show ?thesis
    using startConversation_quota[where uid = "''u5''" and user = premium_profile
        and st = "\<lparr> chatSessions = Map.empty, profiles = [''u5'' \<mapsto> premium_profile] \<rparr>"
        and outcome = "Opening ''Hello!''" and sid = "''s1''" and scenario = "''cafe''"] a
      startConversation_quota[where uid = "''u4''" and user = exhausted_profile
        and st = "\<lparr> chatSessions = Map.empty, profiles = [''u4'' \<mapsto> exhausted_profile] \<rparr>"
        and outcome = "Opening ''Hello!''" and sid = "''s1''" and scenario = "''cafe''"] b
    by simp
qed

subsection \<open>The streaming relay and the completion check\<close>

lemma relay_shape:
  "relay reply = map AiMessageChunk (chunks_of reply) @
     [if completes reply then AiMessageEnd else Error ''Failed to get AI response.'']"
  by (induction reply) simp_all

lemma relay_no_completion: "filter is_completion (relay reply) = []"
  by (induction reply) simp_all

lemma completion_fires:
  assumes "select_single sel_ok db uid = Some user" "\<not> is_premium user"
  shows "completion sel_ok upd_ok today uid db =
           ([Update uid (no_updates\<lparr> upd_daily_conversations := Some (daily_conversations user + 1),
                                     upd_last_conversation_date := Some today \<rparr>),
             Emit (ConversationCompleted (daily_conversations user + 1))],
            update_rows upd_ok db uid
              (no_updates\<lparr> upd_daily_conversations := Some (daily_conversations user + 1),
                           upd_last_conversation_date := Some today \<rparr>))"
  using assms by (simp add: completion_def Let_def)

lemma completion_skips:
  assumes "select_single sel_ok db uid = None \<or>
           (\<exists>p. select_single sel_ok db uid = Some p \<and> is_premium p)"
  shows "completion sel_ok upd_ok today uid db = ([], db)"
  using assms by (auto simp add: completion_def)

lemma completion_cases:
  "completion sel_ok upd_ok today uid db = ([], db) \<or>
   (\<exists>user. select_single sel_ok db uid = Some user \<and> \<not> is_premium user)"
  by (auto simp add: completion_def split: option.splits)

lemma sendMessage_session:
  assumes "chatSessions st sid = Some s"
  shows "sendMessage sel_ok upd_ok today reply sid message st =
           (fst (if userMessageCount s = 4
                   then completion sel_ok upd_ok today (userId s) (profiles st)
                 else ([], profiles st)) @ map Emit (relay reply),
            \<lparr> chatSessions = (chatSessions st)
                 (sid \<mapsto> s\<lparr> userMessageCount := userMessageCount s + 1 \<rparr>),
              profiles = snd (if userMessageCount s = 4
                   then completion sel_ok upd_ok today (userId s) (profiles st)
                 else ([], profiles st)) \<rparr>)"
  using assms by (simp add: sendMessage_def Let_def split: prod.splits)

lemma completion_only:
  "filter is_completion (emits (fst (completion sel_ok upd_ok today uid db))) =
     emits (fst (completion sel_ok upd_ok today uid db))"
  by (simp add: completion_def Let_def split: option.splits)

lemma sendMessage_other_turn:
  assumes "chatSessions st sid = Some s" "userMessageCount s \<noteq> 4"
  shows "sendMessage sel_ok upd_ok today reply sid message st =
           (map Emit (relay reply),
            st\<lparr> chatSessions := (chatSessions st)
                  (sid \<mapsto> s\<lparr> userMessageCount := userMessageCount s + 1 \<rparr>) \<rparr>)"
  using assms(2) by (simp add: sendMessage_session[OF assms(1)])

lemma sendMessages_completions:
  assumes "chatSessions st sid = Some s"
  shows "filter is_completion (emits (fst (sendMessages sid ts st))) =
           emits (fifth_completion sid ts st s) \<and>
         writes (fst (sendMessages sid ts st)) = writes (fifth_completion sid ts st s)"
  using assms
proof (induction ts arbitrary: st s)
  case Nil
  have "fifth_completion sid [] st s = []"
    unfolding fifth_completion_def by auto
  then show ?case by simp
next
  case (Cons t ts)
  let ?s' = "s\<lparr> userMessageCount := userMessageCount s + 1 \<rparr>"
  define tr where
    "tr = fst (sendMessage (t_sel_ok t) (t_upd_ok t) (t_today t) (t_reply t) sid (t_message t) st)"
  define st' where
    "st' = snd (sendMessage (t_sel_ok t) (t_upd_ok t) (t_today t) (t_reply t) sid (t_message t) st)"
  have sess': "chatSessions st' sid = Some ?s'"
    unfolding st'_def by (simp add: sendMessage_session[OF Cons.prems])
  note IH = Cons.IH[OF sess']
  have run: "fst (sendMessages sid (t # ts) st) = tr @ fst (sendMessages sid ts st')"
    unfolding tr_def st'_def by (simp split: prod.splits)
  show ?case
  proof (cases "userMessageCount s = 4")
    case True
    have tr: "tr = fst (completion (t_sel_ok t) (t_upd_ok t) (t_today t) (userId s) (profiles st))
                     @ map Emit (relay (t_reply t))"
      unfolding tr_def using True by (simp add: sendMessage_session[OF Cons.prems])
    have rest: "fifth_completion sid ts st' ?s' = []"
      using True unfolding fifth_completion_def by auto
    have here: "fifth_completion sid (t # ts) st s =
                  fst (completion (t_sel_ok t) (t_upd_ok t) (t_today t) (userId s) (profiles st))"
      using True unfolding fifth_completion_def by auto
    show ?thesis
      using IH rest unfolding run here
      by (simp add: tr emits_append writes_append emits_map_Emit
          writes_map_Emit completion_only relay_no_completion del: sendMessages.simps)
  next
    case False
    have tr: "tr = map Emit (relay (t_reply t))" and db: "profiles st' = profiles st"
      unfolding tr_def st'_def using False by (simp_all add: sendMessage_session[OF Cons.prems])
    have same: "fifth_completion sid (t # ts) st s = fifth_completion sid ts st' ?s'"
    proof (cases "userMessageCount s < 4")
      case True
      then have "4 - userMessageCount s = Suc (4 - (userMessageCount s + 1))"
        by arith
      then have "(t # ts) ! (4 - userMessageCount s) = ts ! (4 - (userMessageCount s + 1))"
        by (simp only: nth_Cons_Suc)
      with True db show ?thesis unfolding fifth_completion_def by auto
    next
      case False
      with \<open>userMessageCount s \<noteq> 4\<close> show ?thesis unfolding fifth_completion_def by auto
    qed
    show ?thesis
      using IH unfolding run same
      by (simp add: tr emits_append writes_append emits_map_Emit
          writes_map_Emit relay_no_completion del: sendMessages.simps)
  qed
qed

lemma completion_length:
  "length (emits (fst (completion sel_ok upd_ok today uid db))) =
     (if \<exists>user. select_single sel_ok db uid = Some user \<and> \<not> is_premium user then 1 else 0) \<and>
   length (writes (fst (completion sel_ok upd_ok today uid db))) =
     (if \<exists>user. select_single sel_ok db uid = Some user \<and> \<not> is_premium user then 1 else 0)"
  by (auto simp add: completion_def Let_def split: option.splits)


text \<open>
  Claim C7. For every message turn of a session, the events the handler emits are: the
  \<^verbatim>\<open>conversationCompleted\<close> event if there is one, then one \<^verbatim>\<open>aiMessageChunk\<close>
  for each chunk of the provider's stream, in the order of the stream, then exactly one
  closing event, which is \<^verbatim>\<open>aiMessageEnd\<close> when the stream ended without throwing
  and \<^verbatim>\<open>error\<close> when it threw. \<^verbatim>\<open>aiMessageEnd\<close> is emitted only in the first case.
\<close>

theorem sendMessage_relay_order:
  assumes "chatSessions st sid = Some s"
  shows "emits (fst (sendMessage sel_ok upd_ok today reply sid message st)) =
           filter is_completion (emits (fst (sendMessage sel_ok upd_ok today reply sid message st)))
           @ map AiMessageChunk (chunks_of reply)
           @ [if completes reply then AiMessageEnd else Error ''Failed to get AI response.''] \<and>
         (AiMessageEnd \<in> set (emits (fst (sendMessage sel_ok upd_ok today reply sid message st))))
           = completes reply"
proof -
  let ?c = "fst (if userMessageCount s = 4
                   then completion sel_ok upd_ok today (userId s) (profiles st)
                 else ([], profiles st))"
  have e: "emits (fst (sendMessage sel_ok upd_ok today reply sid message st)) =
             emits ?c @ relay reply"
    by (simp add: sendMessage_session[OF assms] emits_append emits_map_Emit)
  have c: "filter is_completion (emits ?c) = emits ?c"
    by (simp add: completion_only)
  have n: "AiMessageEnd \<notin> set (emits ?c)"
    by (simp add: completion_def Let_def split: option.splits)
  have first: "emits (fst (sendMessage sel_ok upd_ok today reply sid message st)) =
           filter is_completion (emits (fst (sendMessage sel_ok upd_ok today reply sid message st)))
           @ map AiMessageChunk (chunks_of reply)
           @ [if completes reply then AiMessageEnd else Error ''Failed to get AI response.'']"
    unfolding e using c relay_shape[of reply] by (simp add: relay_no_completion)
  have "(AiMessageEnd \<in> set (relay reply)) = completes reply"
    by (induction reply) simp_all
  with n have second:
    "(AiMessageEnd \<in> set (emits (fst (sendMessage sel_ok upd_ok today reply sid message st))))
           = completes reply"
    unfolding e by simp
  from first second show ?thesis by blast
qed

theorem sendMessage_relay_order_witness:
  "emits (fst (sendMessage True True ''2024-05-02'' (Yield ''Hel'' (Yield ''lo'' Done)) ''s1''
                 ''hello'' fifth_turn_state)) =
     [ConversationCompleted 2, AiMessageChunk ''Hel'', AiMessageChunk ''lo'', AiMessageEnd] \<and>
   emits (fst (sendMessage True True ''2024-05-02'' (Yield ''Hel'' Throw) ''s1''
                 ''hello'' started_state)) =
     [AiMessageChunk ''Hel'', Error ''Failed to get AI response.'']"
proof -
  have a: "chatSessions fifth_turn_state ''s1'' = Some (cafe_session 4)"
    "chatSessions started_state ''s1'' = Some (cafe_session 0)"
    by (simp_all add: fifth_turn_state_def started_state_def)
  have f: "filter is_completion (emits (fst (sendMessage True True ''2024-05-02''
              (Yield ''Hel'' (Yield ''lo'' Done)) ''s1'' ''hello'' fifth_turn_state))) =
             [ConversationCompleted 2]"
    "filter is_completion (emits (fst (sendMessage True True ''2024-05-02''
              (Yield ''Hel'' Throw) ''s1'' ''hello'' started_state))) = []"
    by (simp_all add: sendMessage_def completion_def select_single_def Let_def
        fifth_turn_state_def started_state_def cafe_session_def returning_profile_def)
  show ?thesis
    using sendMessage_relay_order[OF a(1), of True True "''2024-05-02''"
        "Yield ''Hel'' (Yield ''lo'' Done)" "''hello''"]
      sendMessage_relay_order[OF a(2), of True True "''2024-05-02''"
        "Yield ''Hel'' Throw" "''hello''"]
    unfolding f by simp
qed

text \<open>
  Claim C10. On the fifth message of a session, when the read of the profile fails
  (or finds no row) or the profile read is premium, the handler writes nothing, emits no
  \<^verbatim>\<open>conversationCompleted\<close> and no error for the check: its effects are those of the
  relay alone, and the store is as it was.
\<close>

theorem sendMessage_completion_skipped:
  assumes "chatSessions st sid = Some s" "userMessageCount s = 4"
    "select_single sel_ok (profiles st) (userId s) = None \<or>
     (\<exists>p. select_single sel_ok (profiles st) (userId s) = Some p \<and> is_premium p)"
  shows "sendMessage sel_ok upd_ok today reply sid message st =
           (map Emit (relay reply),
            st\<lparr> chatSessions := (chatSessions st)(sid \<mapsto> s\<lparr> userMessageCount := 5 \<rparr>) \<rparr>)"
  using assms(2) completion_skips[OF assms(3)]
  by (simp add: sendMessage_session[OF assms(1)])

theorem sendMessage_completion_skipped_witness:
  "sendMessage True True ''2024-05-02'' (Yield ''Hi'' Done) ''s1'' ''hello'' premium_fifth_turn_state =
     ([Emit (AiMessageChunk ''Hi''), Emit AiMessageEnd],
      premium_fifth_turn_state\<lparr> chatSessions :=
        [''s1'' \<mapsto> (cafe_session 5)\<lparr> userId := ''u5'' \<rparr>] \<rparr>) \<and>
   sendMessage False True ''2024-05-02'' (Yield ''Hi'' Done) ''s1'' ''hello'' fifth_turn_state =
     ([Emit (AiMessageChunk ''Hi''), Emit AiMessageEnd],
      fifth_turn_state\<lparr> chatSessions := [''s1'' \<mapsto> cafe_session 5] \<rparr>)"
proof -
  have a: "chatSessions premium_fifth_turn_state ''s1'' = Some ((cafe_session 4)\<lparr> userId := ''u5'' \<rparr>)"
    "userMessageCount ((cafe_session 4)\<lparr> userId := ''u5'' \<rparr>) = 4"
    "select_single True (profiles premium_fifth_turn_state)
        (userId ((cafe_session 4)\<lparr> userId := ''u5'' \<rparr>)) = None \<or>
     (\<exists>p. select_single True (profiles premium_fifth_turn_state)
        (userId ((cafe_session 4)\<lparr> userId := ''u5'' \<rparr>)) = Some p \<and> is_premium p)"
    by (simp_all add: premium_fifth_turn_state_def cafe_session_def select_single_def
        premium_profile_def)
  have b: "chatSessions fifth_turn_state ''s1'' = Some (cafe_session 4)"
    "userMessageCount (cafe_session 4) = 4"
    "select_single False (profiles fifth_turn_state) (userId (cafe_session 4)) = None \<or>
     (\<exists>p. select_single False (profiles fifth_turn_state) (userId (cafe_session 4)) = Some p \<and>
          is_premium p)"
    by (simp_all add: fifth_turn_state_def cafe_session_def select_single_def)
  show ?thesis
    using sendMessage_completion_skipped[OF a, of True "''2024-05-02''" "Yield ''Hi'' Done" "''hello''"]
      sendMessage_completion_skipped[OF b, of True "''2024-05-02''" "Yield ''Hi'' Done" "''hello''"]
    by (simp add: premium_fifth_turn_state_def fifth_turn_state_def cafe_session_def)
qed

text \<open>
  Claim C2, as stated: on the fifth message the \<^verbatim>\<open>conversationCompleted\<close> event comes
  after the streaming of the reply has completed. It does not: for a session with four
  messages and a reply of one chunk, the event is the first one emitted, and it is not
  among the events that follow \<^verbatim>\<open>aiMessageEnd\<close>.
\<close>

theorem completed_before_stream_counterexample:
  "emits (fst (sendMessage True True ''2024-05-02'' (Yield ''Hi'' Done) ''s1'' ''hello''
                 fifth_turn_state)) =
     [ConversationCompleted 2, AiMessageChunk ''Hi'', AiMessageEnd] \<and>
   ConversationCompleted 2 \<notin>
     set (after_end (emits (fst (sendMessage True True ''2024-05-02'' (Yield ''Hi'' Done) ''s1''
                                   ''hello'' fifth_turn_state))))"
  by (simp add: sendMessage_def completion_def select_single_def Let_def
      fifth_turn_state_def cafe_session_def returning_profile_def)

text \<open>
  Claim C2, amended. On the fifth message of a session of a non-premium user, the
  \<^verbatim>\<open>conversationCompleted\<close> event is emitted before the reply is streamed: it is the
  first event, followed by the events of the relay. It carries 1 plus the
  \<^verbatim>\<open>daily_conversations\<close> the store holds when the handler is called.
\<close>

theorem sendMessage_completed_before_stream:
  assumes "chatSessions st sid = Some s" "userMessageCount s = 4"
    "profiles st (userId s) = Some user" "\<not> is_premium user"
  shows "emits (fst (sendMessage True upd_ok today reply sid message st)) =
           ConversationCompleted (daily_conversations user + 1) # relay reply"
proof -
  have sel: "select_single True (profiles st) (userId s) = Some user"
    using assms(3) by (simp add: select_single_def)
  show ?thesis
    using assms(2) completion_fires[OF sel assms(4), of upd_ok today]
    by (simp add: sendMessage_session[OF assms(1)] emits_append emits_map_Emit)
qed

theorem sendMessage_completed_before_stream_witness:
  "emits (fst (sendMessage True False ''2024-05-02'' (Yield ''Good'' (Yield ''bye'' Done)) ''s1''
                 ''bye'' fifth_turn_state)) =
     [ConversationCompleted 2, AiMessageChunk ''Good'', AiMessageChunk ''bye'', AiMessageEnd]"
proof -
  have a: "chatSessions fifth_turn_state ''s1'' = Some (cafe_session 4)"
    "userMessageCount (cafe_session 4) = 4"
    "profiles fifth_turn_state (userId (cafe_session 4)) = Some returning_profile"
    "\<not> is_premium returning_profile"
    by (simp_all add: fifth_turn_state_def cafe_session_def returning_profile_def)
  show ?thesis
    using sendMessage_completed_before_stream[OF a, of False "''2024-05-02''"
        "Yield ''Good'' (Yield ''bye'' Done)" "''bye''"]
    by (simp add: returning_profile_def)
qed


text \<open>
  Claim C6. In one message turn, a write or a \<^verbatim>\<open>conversationCompleted\<close> event
  occurs only if the counter becomes 5 on this turn and the profile read is not premium.
  On such a turn the handler writes \<^verbatim>\<open>daily_conversations\<close> = the value read plus 1
  and \<^verbatim>\<open>last_conversation_date\<close> = today, and emits \<^verbatim>\<open>conversationCompleted\<close>
  with that count; when the write succeeds the stored row holds both. Over any number of
  messages handled from a new session, there is one completion (one event and one write)
  when there are at least five messages and the profile read on the fifth is not premium,
  and none otherwise: never on the fourth, the sixth or a later message.
\<close>

theorem sendMessage_completion_once:
  assumes "chatSessions st sid = Some s"
  shows "(((\<exists>n. ConversationCompleted n \<in>
                 set (emits (fst (sendMessage sel_ok upd_ok today reply sid message st)))) \<or>
           writes (fst (sendMessage sel_ok upd_ok today reply sid message st)) \<noteq> []) \<longrightarrow>
            userMessageCount s + 1 = 5 \<and>
            (\<exists>user. select_single sel_ok (profiles st) (userId s) = Some user \<and> \<not> is_premium user)) \<and>
         (userMessageCount s + 1 = 5 \<and> profiles st (userId s) = Some user \<and> \<not> is_premium user \<longrightarrow>
            fst (sendMessage True upd_ok today reply sid message st) =
              [Update (userId s) (completion_updates (daily_conversations user + 1) today),
               Emit (ConversationCompleted (daily_conversations user + 1))] @ map Emit (relay reply) \<and>
            profiles (snd (sendMessage True True today reply sid message st)) (userId s) =
              Some (user\<lparr> daily_conversations := daily_conversations user + 1,
                          last_conversation_date := Some today \<rparr>)) \<and>
         (userMessageCount s = 0 \<longrightarrow>
            length (filter is_completion (emits (fst (sendMessages sid ts st)))) =
              (if 5 \<le> length ts \<and>
                  (\<exists>user. select_single (t_sel_ok (ts ! 4)) (profiles st) (userId s) = Some user \<and>
                          \<not> is_premium user)
               then 1 else 0) \<and>
            length (writes (fst (sendMessages sid ts st))) =
              (if 5 \<le> length ts \<and>
                  (\<exists>user. select_single (t_sel_ok (ts ! 4)) (profiles st) (userId s) = Some user \<and>
                          \<not> is_premium user)
               then 1 else 0))"
proof (intro conjI impI)
  assume fired: "(\<exists>n. ConversationCompleted n \<in>
                 set (emits (fst (sendMessage sel_ok upd_ok today reply sid message st)))) \<or>
           writes (fst (sendMessage sel_ok upd_ok today reply sid message st)) \<noteq> []"
  have no_relay: "\<And>n. ConversationCompleted n \<notin> set (relay reply)"
    by (induction reply) simp_all
  show "userMessageCount s + 1 = 5"
  proof (rule ccontr)
    assume "userMessageCount s + 1 \<noteq> 5"
    then have "userMessageCount s \<noteq> 4" by simp
    from sendMessage_other_turn[OF assms this, of sel_ok upd_ok today reply message] fired no_relay
    show False by (simp add: emits_map_Emit writes_map_Emit)
  qed
  then have four: "userMessageCount s = 4" by simp
  show "\<exists>user. select_single sel_ok (profiles st) (userId s) = Some user \<and> \<not> is_premium user"
  proof (rule ccontr)
    assume "\<not> ?thesis"
    then have "completion sel_ok upd_ok today (userId s) (profiles st) = ([], profiles st)"
      using completion_cases[of sel_ok upd_ok today "userId s" "profiles st"] by blast
    with fired no_relay four show False
      by (simp add: sendMessage_session[OF assms] emits_map_Emit writes_map_Emit)
  qed
next
  assume h: "userMessageCount s + 1 = 5 \<and> profiles st (userId s) = Some user \<and> \<not> is_premium user"
  then have sel: "select_single True (profiles st) (userId s) = Some user" and np: "\<not> is_premium user"
    and four: "userMessageCount s = 4"
    by (simp_all add: select_single_def)
  show "fst (sendMessage True upd_ok today reply sid message st) =
              [Update (userId s) (completion_updates (daily_conversations user + 1) today),
               Emit (ConversationCompleted (daily_conversations user + 1))] @ map Emit (relay reply)"
    using four completion_fires[OF sel np, of upd_ok today]
    by (simp add: sendMessage_session[OF assms] completion_updates_def no_updates_def)
  show "profiles (snd (sendMessage True True today reply sid message st)) (userId s) =
              Some (user\<lparr> daily_conversations := daily_conversations user + 1,
                          last_conversation_date := Some today \<rparr>)"
    using four h completion_fires[OF sel np, of True today]
    by (simp add: sendMessage_session[OF assms] update_rows_def apply_updates_def no_updates_def)
next
  assume z: "userMessageCount s = 0"
  have f: "fifth_completion sid ts st s =
             (if 5 \<le> length ts
              then fst (completion (t_sel_ok (ts ! 4)) (t_upd_ok (ts ! 4)) (t_today (ts ! 4))
                          (userId s) (profiles st))
              else [])"
    using z unfolding fifth_completion_def by auto
  have run: "filter is_completion (emits (fst (sendMessages sid ts st))) =
               emits (fifth_completion sid ts st s)"
    "writes (fst (sendMessages sid ts st)) = writes (fifth_completion sid ts st s)"
    using sendMessages_completions[OF assms, of ts] by blast+
  note len = completion_length[of "t_sel_ok (ts ! 4)" "t_upd_ok (ts ! 4)" "t_today (ts ! 4)"
      "userId s" "profiles st"]
  show "length (filter is_completion (emits (fst (sendMessages sid ts st)))) =
              (if 5 \<le> length ts \<and>
                  (\<exists>user. select_single (t_sel_ok (ts ! 4)) (profiles st) (userId s) = Some user \<and>
                          \<not> is_premium user)
               then 1 else 0)"
  proof (cases "5 \<le> length ts")
    case True
    then show ?thesis using len unfolding run f by simp
  next
    case False
    then show ?thesis unfolding run f by simp
  qed
  show "length (writes (fst (sendMessages sid ts st))) =
              (if 5 \<le> length ts \<and>
                  (\<exists>user. select_single (t_sel_ok (ts ! 4)) (profiles st) (userId s) = Some user \<and>
                          \<not> is_premium user)
               then 1 else 0)"
  proof (cases "5 \<le> length ts")
    case True
    then show ?thesis using len unfolding run f by simp
  next
    case False
    then show ?thesis unfolding run f by simp
  qed
qed


theorem sendMessage_completion_once_witness:
  "fst (sendMessage True True ''2024-05-02'' (Yield ''Hi'' Done) ''s1'' ''hello'' fifth_turn_state) =
     [Update ''u1'' (completion_updates 2 ''2024-05-02''), Emit (ConversationCompleted 2),
      Emit (AiMessageChunk ''Hi''), Emit AiMessageEnd] \<and>
   profiles (snd (sendMessage True True ''2024-05-02'' (Yield ''Hi'' Done) ''s1'' ''hello''
                    fifth_turn_state)) ''u1'' =
     Some (returning_profile\<lparr> daily_conversations := 2,
                               last_conversation_date := Some ''2024-05-02'' \<rparr>) \<and>
   length (filter is_completion (emits (fst (sendMessages ''s1'' six_turns started_state)))) = 1 \<and>
   length (writes (fst (sendMessages ''s1'' six_turns started_state))) = 1"
proof -
  have a: "chatSessions fifth_turn_state ''s1'' = Some (cafe_session 4)"
    by (simp add: fifth_turn_state_def)
  have a2: "userMessageCount (cafe_session 4) + 1 = 5 \<and>
            profiles fifth_turn_state (userId (cafe_session 4)) = Some returning_profile \<and>
            \<not> is_premium returning_profile"
    by (simp add: fifth_turn_state_def cafe_session_def returning_profile_def)
  have b: "chatSessions started_state ''s1'' = Some (cafe_session 0)"
    by (simp add: started_state_def)
  have b2: "userMessageCount (cafe_session 0) = 0"
    by (simp add: cafe_session_def)
  have b3: "5 \<le> length six_turns \<and>
            (\<exists>user. select_single (t_sel_ok (six_turns ! 4)) (profiles started_state)
                      (userId (cafe_session 0)) = Some user \<and> \<not> is_premium user)"
    by (simp add: six_turns_def a_turn_def select_single_def started_state_def cafe_session_def
        returning_profile_def)
  from sendMessage_completion_once[OF a, where upd_ok = True and today = "''2024-05-02''"
      and reply = "Yield ''Hi'' Done" and message = "''hello''" and user = returning_profile] a2
  have first:
    "fst (sendMessage True True ''2024-05-02'' (Yield ''Hi'' Done) ''s1'' ''hello'' fifth_turn_state) =
       [Update ''u1'' (completion_updates 2 ''2024-05-02''), Emit (ConversationCompleted 2),
        Emit (AiMessageChunk ''Hi''), Emit AiMessageEnd]"
    "profiles (snd (sendMessage True True ''2024-05-02'' (Yield ''Hi'' Done) ''s1'' ''hello''
                    fifth_turn_state)) ''u1'' =
     Some (returning_profile\<lparr> daily_conversations := 2,
                               last_conversation_date := Some ''2024-05-02'' \<rparr>)"
    by (simp_all add: cafe_session_def returning_profile_def)
  from sendMessage_completion_once[OF b, where ts = six_turns] b2 b3
  have second:
    "length (filter is_completion (emits (fst (sendMessages ''s1'' six_turns started_state)))) = 1 \<and>
     length (writes (fst (sendMessages ''s1'' six_turns started_state))) = 1"
    by simp
  from first second show ?thesis by blast
qed


subsection \<open>Failures of the provider\<close>

text \<open>
  Claim C3, as stated: a \<^verbatim>\<open>startConversation\<close> whose provider call fails leaves no
  new session. It does: the session is registered at line 162, before the opening
  exchange of line 164; when that exchange throws, the socket that had no session has one.
\<close>

theorem failed_start_registers_session_counterexample:
  "chatSessions idle_state ''s1'' = None \<and>
   fst (startConversation True OpeningThrows ''s1'' ''cafe'' (Some ''u1'') idle_state) =
     [Emit (Error ''Failed to start conversation.'')] \<and>
   chatSessions (snd (startConversation True OpeningThrows ''s1'' ''cafe'' (Some ''u1'') idle_state))
     ''s1'' = Some (cafe_session 0)"
  by (simp add: startConversation_def select_single_def Let_def idle_state_def cafe_session_def
      returning_profile_def)

lemma relay_fails:
  assumes "\<not> completes reply"
  shows "last (relay reply) = Error ''Failed to get AI response.''"
    and "AiMessageEnd \<notin> set (relay reply)"
  using assms by (induction reply) (simp_all add: relay_shape)

text \<open>
  Claim C3, amended. A failure of the provider during \<^verbatim>\<open>startConversation\<close> is
  caught and reported as the event \<^verbatim>\<open>error\<close>, and nothing else is emitted. When the
  model or the chat object could not be created, the state is as it was; when the
  opening exchange failed, the new session, with counter 0, is registered for the socket
  (in place of an earlier one, if any). A failure of the provider during
  \<^verbatim>\<open>sendMessage\<close> is reported as the last event, \<^verbatim>\<open>aiMessageEnd\<close> is not emitted,
  and the session stays registered with its counter increased by 1.
\<close>

theorem provider_failure_reported:
  "(uid \<noteq> [] \<and> profiles st uid = Some user \<and>
      (is_premium user \<or> daily_conversations user < 3) \<longrightarrow>
      startConversation True SetupThrows sid scenario (Some uid) st =
        ([Emit (Error ''Failed to start conversation.'')], st) \<and>
      startConversation True OpeningThrows sid scenario (Some uid) st =
        ([Emit (Error ''Failed to start conversation.'')],
         st\<lparr> chatSessions := (chatSessions st)
               (sid \<mapsto> \<lparr> chat_of = Chat scenario, userMessageCount = 0, userId = uid \<rparr>) \<rparr>)) \<and>
   (chatSessions st sid = Some s \<and> \<not> completes reply \<longrightarrow>
      chatSessions (snd (sendMessage sel_ok upd_ok today reply sid message st)) sid =
        Some (s\<lparr> userMessageCount := userMessageCount s + 1 \<rparr>) \<and>
      last (emits (fst (sendMessage sel_ok upd_ok today reply sid message st))) =
        Error ''Failed to get AI response.'' \<and>
      AiMessageEnd \<notin> set (emits (fst (sendMessage sel_ok upd_ok today reply sid message st))))"
proof (intro conjI impI)
  assume h: "uid \<noteq> [] \<and> profiles st uid = Some user \<and>
      (is_premium user \<or> daily_conversations user < 3)"
  then show "startConversation True SetupThrows sid scenario (Some uid) st =
        ([Emit (Error ''Failed to start conversation.'')], st)"
    by (auto simp add: startConversation_def select_single_def)
  from h show "startConversation True OpeningThrows sid scenario (Some uid) st =
        ([Emit (Error ''Failed to start conversation.'')],
         st\<lparr> chatSessions := (chatSessions st)
               (sid \<mapsto> \<lparr> chat_of = Chat scenario, userMessageCount = 0, userId = uid \<rparr>) \<rparr>)"
    by (auto simp add: startConversation_def select_single_def)
next
  assume h: "chatSessions st sid = Some s \<and> \<not> completes reply"
  then have sess: "chatSessions st sid = Some s" and nc: "\<not> completes reply" by simp_all
  let ?c = "fst (if userMessageCount s = 4
                   then completion sel_ok upd_ok today (userId s) (profiles st)
                 else ([], profiles st))"
  have e: "emits (fst (sendMessage sel_ok upd_ok today reply sid message st)) =
             emits ?c @ relay reply"
    by (simp add: sendMessage_session[OF sess] emits_append emits_map_Emit)
  have ne: "relay reply \<noteq> []" by (cases reply) simp_all
  have n: "AiMessageEnd \<notin> set (emits ?c)"
    by (simp add: completion_def Let_def split: option.splits)
  show "chatSessions (snd (sendMessage sel_ok upd_ok today reply sid message st)) sid =
        Some (s\<lparr> userMessageCount := userMessageCount s + 1 \<rparr>)"
    by (simp add: sendMessage_session[OF sess])
  show "last (emits (fst (sendMessage sel_ok upd_ok today reply sid message st))) =
        Error ''Failed to get AI response.''"
    unfolding e using ne relay_fails(1)[OF nc] by simp
  show "AiMessageEnd \<notin> set (emits (fst (sendMessage sel_ok upd_ok today reply sid message st)))"
    unfolding e using n relay_fails(2)[OF nc] by simp
qed

theorem provider_failure_reported_witness:
  "startConversation True SetupThrows ''s1'' ''cafe'' (Some ''u1'') idle_state =
     ([Emit (Error ''Failed to start conversation.'')], idle_state) \<and>
   startConversation True OpeningThrows ''s1'' ''cafe'' (Some ''u1'') idle_state =
     ([Emit (Error ''Failed to start conversation.'')], started_state) \<and>
   chatSessions (snd (sendMessage True True ''2024-05-02'' (Yield ''Hel'' Throw) ''s1'' ''hello''
                        started_state)) ''s1'' = Some (cafe_session 1) \<and>
   last (emits (fst (sendMessage True True ''2024-05-02'' (Yield ''Hel'' Throw) ''s1'' ''hello''
                       started_state))) = Error ''Failed to get AI response.''"
proof -
  have a: "''u1'' \<noteq> [] \<and> profiles idle_state ''u1'' = Some returning_profile \<and>
      (is_premium returning_profile \<or> daily_conversations returning_profile < 3)"
    by (simp add: idle_state_def returning_profile_def)
  have b: "chatSessions started_state ''s1'' = Some (cafe_session 0) \<and>
           \<not> completes (Yield ''Hel'' Throw)"
    by (simp add: started_state_def)
  show ?thesis
    using provider_failure_reported[of "''u1''" idle_state returning_profile "''s1''" "''cafe''"
        "cafe_session 0" "Yield ''Hel'' Throw" True True "''2024-05-02''" "''hello''"] a
      provider_failure_reported[of "''u1''" started_state returning_profile "''s1''" "''cafe''"
        "cafe_session 0" "Yield ''Hel'' Throw" True True "''2024-05-02''" "''hello''"] b
    by (simp add: idle_state_def started_state_def cafe_session_def)
qed

subsection \<open>A counter of an earlier day\<close>

text \<open>
  Claim C1, as stated: \<^verbatim>\<open>startConversation\<close> lets a non-premium profile through
  whenever its \<^verbatim>\<open>last_conversation_date\<close> is not today, whatever the stored counter.
  It does not: the handler reads \<^verbatim>\<open>daily_conversations\<close> and \<^verbatim>\<open>is_premium\<close> only,
  and refuses a profile whose counter of the day before is 3.
\<close>

theorem stale_counter_refused_counterexample:
  "\<not> is_premium exhausted_profile \<and>
   last_conversation_date exhausted_profile \<noteq> Some ''2024-05-02'' \<and>
   startConversation True (Opening ''Hello!'') ''s1'' ''cafe'' (Some ''u4'') exhausted_state =
     ([Emit LimitReached], exhausted_state)"
  by (simp add: startConversation_def select_single_def Let_def exhausted_state_def
      exhausted_profile_def)

lemma reset_stale:
  assumes "last_conversation_date user \<noteq> Some today"
  shows "\<exists>u. compute_updates today yesterdayStr user = (u, True) \<and>
             upd_daily_conversations u = Some 0 \<and> upd_last_conversation_date u = Some today"
  using assms
  by (simp add: compute_updates_def reset_logic_def)

text \<open>
  Claim C1, amended. For a non-premium profile whose \<^verbatim>\<open>last_conversation_date\<close> is not
  today, \<^verbatim>\<open>startConversation\<close> decides on the stored counter as it is: it emits
  \<^verbatim>\<open>limitReached\<close> exactly when the stored \<^verbatim>\<open>daily_conversations\<close> is at least 3.
  The counter is zero once \<^verbatim>\<open>getUserData\<close> has reset it: after a
  \<^verbatim>\<open>getUserData\<close> whose read and write succeeded, the stored counter is 0, the stored
  \<^verbatim>\<open>last_conversation_date\<close> is today, and \<^verbatim>\<open>startConversation\<close> does not emit
  \<^verbatim>\<open>limitReached\<close>.
\<close>

theorem stale_counter_reset_by_getUserData:
  assumes "uid \<noteq> []" "profiles st uid = Some user" "\<not> is_premium user"
    "last_conversation_date user \<noteq> Some (getToday first_now)"
  shows "(Emit LimitReached \<in> set (fst (startConversation True outcome sid scenario (Some uid) st)))
           = (daily_conversations user \<ge> 3) \<and>
         (\<exists>p. snd (getUserData True True tz first_now second_now (Some uid) (profiles st)) uid = Some p \<and>
              daily_conversations p = 0 \<and> last_conversation_date p = Some (getToday first_now)) \<and>
         Emit LimitReached \<notin> set (fst (startConversation True outcome sid scenario (Some uid)
           (st\<lparr> profiles := snd (getUserData True True tz first_now second_now (Some uid) (profiles st)) \<rparr>)))"
proof (intro conjI)
  show "(Emit LimitReached \<in> set (fst (startConversation True outcome sid scenario (Some uid) st)))
           = (daily_conversations user \<ge> 3)"
    using assms(1-3)
    by (cases outcome) (auto simp add: startConversation_def select_single_def)
  from reset_stale[OF assms(4), of "compute_yesterdayStr tz second_now"] obtain u where
    u: "compute_updates (getToday first_now) (compute_yesterdayStr tz second_now) user = (u, True)"
       "upd_daily_conversations u = Some 0"
       "upd_last_conversation_date u = Some (getToday first_now)"
    by blast
  let ?p = "apply_updates u user"
  have w: "snd (getUserData True True tz first_now second_now (Some uid) (profiles st)) =
             (profiles st)(uid \<mapsto> ?p)"
    using getUserData_body_written[where uid = uid and db = "profiles st" and user = user
        and today = "getToday first_now" and yesterdayStr = "compute_yesterdayStr tz second_now" and u = u]
      assms(1,2) u(1)
    by (simp add: getUserData_present)
  have p: "daily_conversations ?p = 0" "last_conversation_date ?p = Some (getToday first_now)"
    using u(2,3) by (simp_all add: apply_updates_def)
  show "\<exists>p. snd (getUserData True True tz first_now second_now (Some uid) (profiles st)) uid = Some p \<and>
              daily_conversations p = 0 \<and> last_conversation_date p = Some (getToday first_now)"
    unfolding w using p by simp
  show "Emit LimitReached \<notin> set (fst (startConversation True outcome sid scenario (Some uid)
           (st\<lparr> profiles := snd (getUserData True True tz first_now second_now (Some uid) (profiles st)) \<rparr>)))"
    unfolding w using assms(1) p(1)
    by (cases outcome) (auto simp add: startConversation_def select_single_def)
qed

theorem stale_counter_reset_by_getUserData_witness:
  "Emit LimitReached \<in> set (fst (startConversation True (Opening ''Hello!'') ''s1'' ''cafe''
                                  (Some ''u4'') exhausted_state)) \<and>
   Emit LimitReached \<notin> set (fst (startConversation True (Opening ''Hello!'') ''s1'' ''cafe''
       (Some ''u4'')
       (exhausted_state\<lparr> profiles :=
          snd (getUserData True True utc_zone noon_may_2 noon_may_2 (Some ''u4'')
                 (profiles exhausted_state)) \<rparr>)))"
proof -
  have a: "''u4'' \<noteq> []" "profiles exhausted_state ''u4'' = Some exhausted_profile"
    "\<not> is_premium exhausted_profile"
    "last_conversation_date exhausted_profile \<noteq> Some (getToday noon_may_2)"
    by (simp_all add: days_noon_may_2 exhausted_state_def exhausted_profile_def)
  have d: "daily_conversations exhausted_profile \<ge> 3"
    by (simp add: exhausted_profile_def)
  show ?thesis
    using stale_counter_reset_by_getUserData[OF a, of "Opening ''Hello!''" "''s1''" "''cafe''"
        utc_zone noon_may_2] d
    by simp
qed

end
